theory Spec2Isabelle
  imports Main "HOL-Library.Word"
begin

unbundle bit_operations_syntax

section \<open>The SiFive GPIO driver (drivers/gpio/gpio_sifive.c)\<close>

subsection \<open>Data model\<close>

type_synonym u32 = "32 word"

text \<open>
  \<^verbatim>\<open>struct gpio_sifive_t\<close>: the register block, seventeen \<^verbatim>\<open>unsigned int\<close> fields
  in the order of the source. Bit \<open>i\<close> of a field belongs to pin \<open>i\<close>.
\<close>

record gpio_sifive_t =
  in_val :: u32
  in_en :: u32
  out_en :: u32
  out_val :: u32
  pue :: u32
  ds :: u32
  rise_ie :: u32
  rise_ip :: u32
  fall_ie :: u32
  fall_ip :: u32
  high_ie :: u32
  high_ip :: u32
  low_ie :: u32
  low_ip :: u32
  iof_en :: u32
  iof_sel :: u32
  invert :: u32

text \<open>
  \<^verbatim>\<open>struct gpio_sifive_config\<close>. The field \<^verbatim>\<open>gpio_cfg_func\<close> only connects the
  interrupt lines to the handler (\<^verbatim>\<open>IRQ_CONNECT\<close>) and never touches the register
  block; it is left out.
\<close>

record gpio_sifive_cfg =
  gpio_base_addr :: u32
  gpio_irq_base :: u32

text \<open>
  The constants that the driver takes from headers which are not part of the driver file
  (\<^verbatim>\<open>gpio.h\<close>, \<^verbatim>\<open>soc.h\<close>). The driver only ever compares with them or masks with
  them, so they are a parameter of every operation; nothing below depends on their values
  except where a hypothesis says so.
\<close>

record gpio_h =
  GPIO_ACCESS_BY_PIN :: u32
  SIFIVE_PINMUX_PINS :: u32
  GPIO_DIR_OUT :: u32
  GPIO_POL_INV :: u32
  GPIO_PUD_MASK :: u32
  GPIO_PUD_PULL_UP :: u32
  GPIO_PUD_PULL_DOWN :: u32
  GPIO_INT :: u32
  GPIO_INT_EDGE :: u32
  GPIO_INT_DOUBLE_EDGE :: u32
  GPIO_INT_ACTIVE_HIGH :: u32
  RISCV_MAX_GENERIC_IRQ :: u32

text \<open>
  One concrete choice of these constants, laid out as in Zephyr's \<^verbatim>\<open>include/gpio.h\<close>
  (direction in bit 0, interrupt in bit 1, active level in bit 2, edge in bit 5, double
  edge in bit 6, polarity in bit 7, pull mode in bits 8 and 9), with 32 pins and 11
  generic interrupt lines. It is used for concrete runs only.
\<close>

definition zephyr_gpio_h :: gpio_h where
  "zephyr_gpio_h =
     \<lparr> GPIO_ACCESS_BY_PIN = 0, SIFIVE_PINMUX_PINS = 32,
       GPIO_DIR_OUT = 0x1, GPIO_POL_INV = 0x80,
       GPIO_PUD_MASK = 0x300, GPIO_PUD_PULL_UP = 0x100, GPIO_PUD_PULL_DOWN = 0x200,
       GPIO_INT = 0x2, GPIO_INT_EDGE = 0x20, GPIO_INT_DOUBLE_EDGE = 0x40,
       GPIO_INT_ACTIVE_HIGH = 0x4, RISCV_MAX_GENERIC_IRQ = 11 \<rparr>"

text \<open>The register block with every register zero, for concrete runs.\<close>

definition gpio_zero :: gpio_sifive_t where
  "gpio_zero =
     \<lparr> in_val = 0, in_en = 0, out_en = 0, out_val = 0, pue = 0, ds = 0,
       rise_ie = 0, rise_ip = 0, fall_ie = 0, fall_ip = 0,
       high_ie = 0, high_ip = 0, low_ie = 0, low_ip = 0,
       iof_en = 0, iof_sel = 0, invert = 0 \<rparr>"

text \<open>The two error numbers the driver returns (negated) from \<^verbatim>\<open>errno.h\<close>.\<close>

datatype errno = EINVAL | ENOTSUP

text \<open>
  Modelled from the spec: the macro \<^verbatim>\<open>BIT(n)\<close> of \<^verbatim>\<open>misc/util.h\<close>, which is not part
  of the driver file: the single-bit mask of pin \<open>n\<close> (\<^verbatim>\<open>1UL << n\<close>). Every use in the
  driver is guarded by \<^verbatim>\<open>pin < SIFIVE_PINMUX_PINS\<close>.
\<close>

definition BIT :: "u32 \<Rightarrow> u32" where
  "BIT n = push_bit (unat n) 1"

subsection \<open>Pin configuration\<close>

text \<open>
  Lines 115 to 147 of \<^verbatim>\<open>gpio_sifive_config\<close>: the direction branch. The register
  stores happen in the order of the source; the two early returns keep the registers
  as they are at that point.
\<close>

definition config_direction ::
  "gpio_h \<Rightarrow> gpio_sifive_t \<Rightarrow> u32 \<Rightarrow> u32 \<Rightarrow> (errno + unit) \<times> gpio_sifive_t" where
  "config_direction h gpio pin flags =
     (if flags AND GPIO_DIR_OUT h \<noteq> 0 then
        let gpio = gpio\<lparr>in_en := in_en gpio AND NOT (BIT pin)\<rparr>;
            gpio = gpio\<lparr>out_en := out_en gpio OR BIT pin\<rparr>
        in if flags AND GPIO_POL_INV h \<noteq> 0
           then (Inr (), gpio\<lparr>invert := invert gpio OR BIT pin\<rparr>)
           else (Inr (), gpio\<lparr>invert := invert gpio AND NOT (BIT pin)\<rparr>)
      else
        let gpio = gpio\<lparr>out_en := out_en gpio AND NOT (BIT pin)\<rparr>;
            gpio = gpio\<lparr>in_en := in_en gpio OR BIT pin\<rparr>
        in if flags AND GPIO_POL_INV h \<noteq> 0 then (Inl EINVAL, gpio)
           else if flags AND GPIO_PUD_MASK h = GPIO_PUD_PULL_DOWN h then (Inl EINVAL, gpio)
           else if flags AND GPIO_PUD_MASK h = GPIO_PUD_PULL_UP h
           then (Inr (), gpio\<lparr>pue := pue gpio OR BIT pin\<rparr>)
           else (Inr (), gpio\<lparr>pue := pue gpio AND NOT (BIT pin)\<rparr>))"

text \<open>Lines 158 to 197 of \<^verbatim>\<open>gpio_sifive_config\<close>: the interrupt branch.\<close>

definition config_interrupt ::
  "gpio_h \<Rightarrow> gpio_sifive_t \<Rightarrow> u32 \<Rightarrow> u32 \<Rightarrow> (errno + unit) \<times> gpio_sifive_t" where
  "config_interrupt h gpio pin flags =
     (if flags AND GPIO_INT h = 0 then (Inr (), gpio)
      else if flags AND GPIO_DIR_OUT h \<noteq> 0 then (Inl EINVAL, gpio)
      else if flags AND GPIO_INT_EDGE h \<noteq> 0 then
        let gpio = gpio\<lparr>high_ie := high_ie gpio AND NOT (BIT pin)\<rparr>;
            gpio = gpio\<lparr>low_ie := low_ie gpio AND NOT (BIT pin)\<rparr>
        in if flags AND GPIO_INT_DOUBLE_EDGE h \<noteq> 0 then
             let gpio = gpio\<lparr>rise_ie := rise_ie gpio OR BIT pin\<rparr>
             in (Inr (), gpio\<lparr>fall_ie := fall_ie gpio OR BIT pin\<rparr>)
           else if flags AND GPIO_INT_ACTIVE_HIGH h \<noteq> 0 then
             let gpio = gpio\<lparr>rise_ie := rise_ie gpio OR BIT pin\<rparr>
             in (Inr (), gpio\<lparr>fall_ie := fall_ie gpio AND NOT (BIT pin)\<rparr>)
           else
             let gpio = gpio\<lparr>rise_ie := rise_ie gpio AND NOT (BIT pin)\<rparr>
             in (Inr (), gpio\<lparr>fall_ie := fall_ie gpio OR BIT pin\<rparr>)
      else
        let gpio = gpio\<lparr>rise_ie := rise_ie gpio AND NOT (BIT pin)\<rparr>;
            gpio = gpio\<lparr>fall_ie := fall_ie gpio AND NOT (BIT pin)\<rparr>
        in if flags AND GPIO_INT_ACTIVE_HIGH h \<noteq> 0 then
             let gpio = gpio\<lparr>high_ie := high_ie gpio OR BIT pin\<rparr>
             in (Inr (), gpio\<lparr>low_ie := low_ie gpio AND NOT (BIT pin)\<rparr>)
           else
             let gpio = gpio\<lparr>high_ie := high_ie gpio AND NOT (BIT pin)\<rparr>
             in (Inr (), gpio\<lparr>low_ie := low_ie gpio OR BIT pin\<rparr>))"

text \<open>
  \<^verbatim>\<open>gpio_sifive_config(dev, access_op, pin, flags)\<close>: the result is the returned
  status (\<open>Inr ()\<close> for 0, \<open>Inl e\<close> for \<^verbatim>\<open>-e\<close>) and the register block after the call.
\<close>

definition gpio_sifive_config ::
  "gpio_h \<Rightarrow> gpio_sifive_t \<Rightarrow> u32 \<Rightarrow> u32 \<Rightarrow> u32 \<Rightarrow> (errno + unit) \<times> gpio_sifive_t" where
  "gpio_sifive_config h gpio access_op pin flags =
     (if access_op \<noteq> GPIO_ACCESS_BY_PIN h then (Inl ENOTSUP, gpio)
      else if pin \<ge> SIFIVE_PINMUX_PINS h then (Inl EINVAL, gpio)
      else case config_direction h gpio pin flags of
             (Inl e, gpio') \<Rightarrow> (Inl e, gpio')
           | (Inr _, gpio') \<Rightarrow> config_interrupt h gpio' pin flags)"

subsection \<open>Pin input and output\<close>

text \<open>\<^verbatim>\<open>gpio_sifive_write(dev, access_op, pin, value)\<close>.\<close>

definition gpio_sifive_write ::
  "gpio_h \<Rightarrow> gpio_sifive_t \<Rightarrow> u32 \<Rightarrow> u32 \<Rightarrow> u32 \<Rightarrow> (errno + unit) \<times> gpio_sifive_t" where
  "gpio_sifive_write h gpio access_op pin val =
     (if access_op \<noteq> GPIO_ACCESS_BY_PIN h then (Inl ENOTSUP, gpio)
      else if pin \<ge> SIFIVE_PINMUX_PINS h then (Inl EINVAL, gpio)
      else if in_en gpio AND BIT pin \<noteq> 0 then (Inl EINVAL, gpio)
      else if val \<noteq> 0 then (Inr (), gpio\<lparr>out_val := out_val gpio OR BIT pin\<rparr>)
      else (Inr (), gpio\<lparr>out_val := out_val gpio AND NOT (BIT pin)\<rparr>))"

text \<open>
  \<^verbatim>\<open>gpio_sifive_read(dev, access_op, pin, value)\<close>: \<open>Inr v\<close> is a return of 0 with
  \<open>v\<close> stored to \<^verbatim>\<open>*value\<close>; \<^verbatim>\<open>!!x\<close> is 1 when \<open>x\<close> is not zero, else 0. On an error
  \<^verbatim>\<open>*value\<close> is not written.
\<close>

definition gpio_sifive_read ::
  "gpio_h \<Rightarrow> gpio_sifive_t \<Rightarrow> u32 \<Rightarrow> u32 \<Rightarrow> (errno + u32) \<times> gpio_sifive_t" where
  "gpio_sifive_read h gpio access_op pin =
     (if access_op \<noteq> GPIO_ACCESS_BY_PIN h then (Inl ENOTSUP, gpio)
      else if pin \<ge> SIFIVE_PINMUX_PINS h then (Inl EINVAL, gpio)
      else if out_en gpio AND BIT pin \<noteq> 0
      then (Inr (if out_val gpio AND BIT pin \<noteq> 0 then 1 else 0), gpio)
      else (Inr (if in_val gpio AND BIT pin \<noteq> 0 then 1 else 0), gpio))"

subsection \<open>Initialisation\<close>

text \<open>
  \<^verbatim>\<open>gpio_sifive_init(dev)\<close>: eight stores of zero, then \<^verbatim>\<open>cfg->gpio_cfg_func()\<close>
  (interrupt wiring, no register of the block), then \<^verbatim>\<open>return 0\<close>.
\<close>

definition gpio_sifive_init :: "gpio_sifive_t \<Rightarrow> (errno + unit) \<times> gpio_sifive_t" where
  "gpio_sifive_init gpio =
     (let gpio = gpio\<lparr>in_en := 0\<rparr>;
          gpio = gpio\<lparr>out_en := 0\<rparr>;
          gpio = gpio\<lparr>pue := 0\<rparr>;
          gpio = gpio\<lparr>rise_ie := 0\<rparr>;
          gpio = gpio\<lparr>fall_ie := 0\<rparr>;
          gpio = gpio\<lparr>high_ie := 0\<rparr>;
          gpio = gpio\<lparr>low_ie := 0\<rparr>;
          gpio = gpio\<lparr>invert := 0\<rparr>
      in (Inr (), gpio))"

subsection \<open>Interrupt dispatch\<close>

text \<open>
  A registered callback (\<^verbatim>\<open>struct gpio_callback\<close>): the pins it listens to and its
  handler, which is opaque to the driver and is identified here by a number.
\<close>

record gpio_callback =
  cb_pin_mask :: u32
  cb_handler :: nat

text \<open>
  Modelled from the spec: \<^verbatim>\<open>gpio_fire_callbacks\<close> of \<^verbatim>\<open>gpio_utils.h\<close>, which is not
  part of the driver file: "invoke every registered callback whose stored bitmask
  intersects the pin mask, passing the triggering pin mask". The result is the sequence
  of invocations, each a handler with the pin mask it is passed.
\<close>

definition gpio_fire_callbacks :: "gpio_callback list \<Rightarrow> u32 \<Rightarrow> (nat \<times> u32) list" where
  "gpio_fire_callbacks cbs pins =
     map (\<lambda>cb. (cb_handler cb, pins)) (filter (\<lambda>cb. cb_pin_mask cb AND pins \<noteq> 0) cbs)"

text \<open>The four pending-status registers.\<close>

datatype ip_reg = RISE_IP | FALL_IP | HIGH_IP | LOW_IP

text \<open>
  Lines 82 to 89 of \<^verbatim>\<open>gpio_sifive_irq_handler\<close>: the store that acknowledges the
  interrupt, as the register and the value stored, or \<open>None\<close> when no branch is taken.
\<close>

definition irq_ack :: "gpio_sifive_t \<Rightarrow> u32 \<Rightarrow> (ip_reg \<times> u32) option" where
  "irq_ack gpio pin_mask =
     (if rise_ip gpio AND pin_mask \<noteq> 0 then Some (RISE_IP, pin_mask)
      else if fall_ip gpio AND pin_mask \<noteq> 0 then Some (FALL_IP, pin_mask)
      else if high_ip gpio AND pin_mask \<noteq> 0 then Some (HIGH_IP, pin_mask)
      else if low_ip gpio AND pin_mask \<noteq> 0 then Some (LOW_IP, pin_mask)
      else None)"

text \<open>
  Modelled from the spec: what the controller does on a store to a pending-status
  register, "write-1-to-clear semantics": every bit written as 1 is cleared, every other
  bit of the register keeps its value.
\<close>

fun store_ip :: "gpio_sifive_t \<Rightarrow> ip_reg \<times> u32 \<Rightarrow> gpio_sifive_t" where
  "store_ip gpio (RISE_IP, v) = gpio\<lparr>rise_ip := rise_ip gpio AND NOT v\<rparr>"
| "store_ip gpio (FALL_IP, v) = gpio\<lparr>fall_ip := fall_ip gpio AND NOT v\<rparr>"
| "store_ip gpio (HIGH_IP, v) = gpio\<lparr>high_ip := high_ip gpio AND NOT v\<rparr>"
| "store_ip gpio (LOW_IP, v) = gpio\<lparr>low_ip := low_ip gpio AND NOT v\<rparr>"

text \<open>
  The outcome of one run of the handler: the callbacks invoked, the acknowledging store
  (if any), and the register block afterwards.
\<close>

record irq_outcome =
  fired :: "(nat \<times> u32) list"
  ack :: "(ip_reg \<times> u32) option"
  regs :: gpio_sifive_t

text \<open>
  \<^verbatim>\<open>gpio_sifive_irq_handler(arg)\<close>. \<open>irq\<close> is what \<^verbatim>\<open>riscv_plic_get_irq()\<close> returns and
  \<open>cbs\<close> the callback list \<^verbatim>\<open>data->cb\<close>. The mask is
  \<^verbatim>\<open>1 << (irq - (cfg->gpio_irq_base - RISCV_MAX_GENERIC_IRQ))\<close>, the subtraction being
  unsigned 32-bit. What a callback does is outside the driver: the model records the
  invocation and takes the register block to be the same when the callbacks return.
\<close>

definition gpio_sifive_irq_handler ::
  "gpio_h \<Rightarrow> gpio_sifive_cfg \<Rightarrow> gpio_callback list \<Rightarrow> gpio_sifive_t \<Rightarrow> u32 \<Rightarrow> irq_outcome" where
  "gpio_sifive_irq_handler h cfg cbs gpio irq =
     (let pin_mask = push_bit (unat (irq - (gpio_irq_base cfg - RISCV_MAX_GENERIC_IRQ h))) 1;
          calls = gpio_fire_callbacks cbs pin_mask;
          st = irq_ack gpio pin_mask
      in \<lparr> fired = calls, ack = st,
           regs = (case st of None \<Rightarrow> gpio | Some s \<Rightarrow> store_ip gpio s) \<rparr>)"

section \<open>Bit masks\<close>

text \<open>For a pin below 32 the mask has exactly the bit of that pin.\<close>

lemma bit_BIT:
  "unat n < 32 \<Longrightarrow> bit (BIT n) m \<longleftrightarrow> m = unat n"
  by (auto simp: BIT_def bit_simps)

lemma bit_set_BIT:
  "unat n < 32 \<Longrightarrow> bit (x OR BIT n) m \<longleftrightarrow> bit x m \<or> m = unat n"
  by (simp add: bit_or_iff bit_BIT)

lemma bit_clear_BIT:
  "unat n < 32 \<Longrightarrow> bit (x AND NOT (BIT n)) m \<longleftrightarrow> bit x m \<and> m \<noteq> unat n"
  by (auto simp: bit_and_iff bit_not_iff bit_BIT dest: bit_imp_le_length)

lemma test_BIT:
  assumes "unat n < 32"
  shows "x AND BIT n \<noteq> 0 \<longleftrightarrow> bit x (unat n)"
proof -
  have "x AND BIT n = 0 \<longleftrightarrow> \<not> bit x (unat n)"
  proof
    assume "x AND BIT n = 0"
    then have "\<not> bit (x AND BIT n) (unat n)" by simp
    with assms show "\<not> bit x (unat n)" by (simp add: bit_and_iff bit_BIT)
  next
    assume "\<not> bit x (unat n)"
    with assms show "x AND BIT n = 0"
      by (intro bit_word_eqI) (auto simp: bit_and_iff bit_BIT)
  qed
  then show ?thesis by simp
qed

lemma pin_fits:
  "pin < SIFIVE_PINMUX_PINS h \<Longrightarrow> SIFIVE_PINMUX_PINS h \<le> 32 \<Longrightarrow> unat pin < 32"
  by (simp add: word_less_nat_alt word_le_nat_alt)

section \<open>Pin configuration: what one call does\<close>

lemma config_direction_dir:
  assumes "unat pin < 32" and "config_direction h gpio pin flags = (r, gpio')"
  shows "bit (out_en gpio') (unat pin) \<longleftrightarrow> flags AND GPIO_DIR_OUT h \<noteq> 0"
    and "bit (in_en gpio') (unat pin) \<longleftrightarrow> flags AND GPIO_DIR_OUT h = 0"
  using assms
  by (auto simp: config_direction_def Let_def bit_set_BIT bit_clear_BIT split: if_splits)

lemma config_direction_keeps:
  assumes "config_direction h gpio pin flags = (r, gpio')"
  shows "in_val gpio' = in_val gpio" "out_val gpio' = out_val gpio" "ds gpio' = ds gpio"
    "rise_ie gpio' = rise_ie gpio" "rise_ip gpio' = rise_ip gpio"
    "fall_ie gpio' = fall_ie gpio" "fall_ip gpio' = fall_ip gpio"
    "high_ie gpio' = high_ie gpio" "high_ip gpio' = high_ip gpio"
    "low_ie gpio' = low_ie gpio" "low_ip gpio' = low_ip gpio"
    "iof_en gpio' = iof_en gpio" "iof_sel gpio' = iof_sel gpio"
  using assms
  by (auto simp: config_direction_def Let_def split: if_splits)

lemma config_interrupt_keeps:
  assumes "config_interrupt h gpio pin flags = (r, gpio')"
  shows "in_val gpio' = in_val gpio" "in_en gpio' = in_en gpio" "out_en gpio' = out_en gpio"
    "out_val gpio' = out_val gpio" "pue gpio' = pue gpio" "ds gpio' = ds gpio"
    "rise_ip gpio' = rise_ip gpio" "fall_ip gpio' = fall_ip gpio"
    "high_ip gpio' = high_ip gpio" "low_ip gpio' = low_ip gpio"
    "iof_en gpio' = iof_en gpio" "iof_sel gpio' = iof_sel gpio" "invert gpio' = invert gpio"
  using assms
  by (auto simp: config_interrupt_def Let_def split: if_splits)

lemma config_interrupt_error:
  "config_interrupt h gpio pin flags = (Inl e, gpio') \<Longrightarrow>
     e = EINVAL \<and> gpio' = gpio \<and> flags AND GPIO_INT h \<noteq> 0 \<and> flags AND GPIO_DIR_OUT h \<noteq> 0"
  by (auto simp: config_interrupt_def Let_def split: if_splits)

lemma gpio_sifive_config_cases:
  assumes "gpio_sifive_config h gpio access_op pin flags = (r, gpio')"
  obtains
    (notsup) "access_op \<noteq> GPIO_ACCESS_BY_PIN h" "r = Inl ENOTSUP" "gpio' = gpio"
  | (range) "access_op = GPIO_ACCESS_BY_PIN h" "pin \<ge> SIFIVE_PINMUX_PINS h"
      "r = Inl EINVAL" "gpio' = gpio"
  | (dir_error) e where "access_op = GPIO_ACCESS_BY_PIN h" "pin < SIFIVE_PINMUX_PINS h"
      "config_direction h gpio pin flags = (Inl e, gpio')" "r = Inl e"
  | (dir_ok) g1 where "access_op = GPIO_ACCESS_BY_PIN h" "pin < SIFIVE_PINMUX_PINS h"
      "config_direction h gpio pin flags = (Inr (), g1)"
      "config_interrupt h g1 pin flags = (r, gpio')"
  using assms
  by (auto simp: gpio_sifive_config_def not_le split: if_splits prod.splits sum.splits)


lemma config_interrupt_ie:
  assumes "unat pin < 32" and "config_interrupt h gpio pin flags = (Inr (), gpio')"
    and "flags AND GPIO_INT h \<noteq> 0"
  shows "bit (rise_ie gpio') (unat pin) \<longleftrightarrow>
           flags AND GPIO_INT_EDGE h \<noteq> 0 \<and>
           (flags AND GPIO_INT_DOUBLE_EDGE h \<noteq> 0 \<or> flags AND GPIO_INT_ACTIVE_HIGH h \<noteq> 0)"
    and "bit (fall_ie gpio') (unat pin) \<longleftrightarrow>
           flags AND GPIO_INT_EDGE h \<noteq> 0 \<and>
           (flags AND GPIO_INT_DOUBLE_EDGE h \<noteq> 0 \<or> flags AND GPIO_INT_ACTIVE_HIGH h = 0)"
    and "bit (high_ie gpio') (unat pin) \<longleftrightarrow>
           flags AND GPIO_INT_EDGE h = 0 \<and> flags AND GPIO_INT_ACTIVE_HIGH h \<noteq> 0"
    and "bit (low_ie gpio') (unat pin) \<longleftrightarrow>
           flags AND GPIO_INT_EDGE h = 0 \<and> flags AND GPIO_INT_ACTIVE_HIGH h = 0"
  using assms
  by (auto simp: config_interrupt_def Let_def bit_set_BIT bit_clear_BIT split: if_splits)

lemma config_direction_frame:
  assumes "unat pin < 32" and "config_direction h gpio pin flags = (r, gpio')"
    and "n \<noteq> unat pin"
  shows "bit (in_en gpio') n = bit (in_en gpio) n" "bit (out_en gpio') n = bit (out_en gpio) n"
    "bit (pue gpio') n = bit (pue gpio) n" "bit (invert gpio') n = bit (invert gpio) n"
  using assms
  by (auto simp: config_direction_def Let_def bit_set_BIT bit_clear_BIT split: if_splits)

lemma config_interrupt_frame:
  assumes "unat pin < 32" and "config_interrupt h gpio pin flags = (r, gpio')"
    and "n \<noteq> unat pin"
  shows "bit (rise_ie gpio') n = bit (rise_ie gpio) n" "bit (fall_ie gpio') n = bit (fall_ie gpio) n"
    "bit (high_ie gpio') n = bit (high_ie gpio) n" "bit (low_ie gpio') n = bit (low_ie gpio) n"
  using assms
  by (auto simp: config_interrupt_def Let_def bit_set_BIT bit_clear_BIT split: if_splits)

lemma config_direction_error:
  assumes "unat pin < 32" and "config_direction h gpio pin flags = (Inl e, gpio')"
  shows "e = EINVAL" "flags AND GPIO_DIR_OUT h = 0"
    "flags AND GPIO_POL_INV h \<noteq> 0 \<or> flags AND GPIO_PUD_MASK h = GPIO_PUD_PULL_DOWN h"
    "pue gpio' = pue gpio" "invert gpio' = invert gpio"
  using assms
  by (auto simp: config_direction_def Let_def split: if_splits)

lemma config_direction_rejects:
  assumes "flags AND GPIO_DIR_OUT h = 0"
    and "flags AND GPIO_POL_INV h \<noteq> 0 \<or> flags AND GPIO_PUD_MASK h = GPIO_PUD_PULL_DOWN h"
  shows "fst (config_direction h gpio pin flags) = Inl EINVAL"
  using assms by (auto simp: config_direction_def Let_def)

lemma config_direction_output:
  assumes "unat pin < 32" and "flags AND GPIO_DIR_OUT h \<noteq> 0"
    and "config_direction h gpio pin flags = (r, gpio')"
  shows "r = Inr ()" "pue gpio' = pue gpio"
    "bit (invert gpio') (unat pin) \<longleftrightarrow> flags AND GPIO_POL_INV h \<noteq> 0"
  using assms
  by (auto simp: config_direction_def Let_def bit_set_BIT bit_clear_BIT split: if_splits)




lemma config_interrupt_rejects:
  assumes "flags AND GPIO_INT h \<noteq> 0" and "flags AND GPIO_DIR_OUT h \<noteq> 0"
  shows "config_interrupt h gpio pin flags = (Inl EINVAL, gpio)"
  using assms by (simp add: config_interrupt_def)

section \<open>A rejected configuration\<close>

text \<open>
  Claim C1, as stated, does not hold. With the flag values of \<open>zephyr_gpio_h\<close>, asking for
  polarity inversion on an input (flags \<open>0x80\<close>) for pin 0 of a zeroed register block
  returns \<^verbatim>\<open>-EINVAL\<close>, yet the pin's input-enable bit, clear before the call, is set
  after it: the direction is stored before the flags are checked. And asking for pull-down
  together with output direction (flags \<open>0x201\<close>) is not rejected at all.
\<close>

theorem config_error_counterexample:
  "fst (gpio_sifive_config zephyr_gpio_h gpio_zero 0 0 0x80) = Inl EINVAL
   \<and> \<not> bit (in_en gpio_zero) 0
   \<and> bit (in_en (snd (gpio_sifive_config zephyr_gpio_h gpio_zero 0 0 0x80))) 0
   \<and> (0x201 :: u32) AND GPIO_PUD_MASK zephyr_gpio_h = GPIO_PUD_PULL_DOWN zephyr_gpio_h
   \<and> fst (gpio_sifive_config zephyr_gpio_h gpio_zero 0 0 0x201) = Inr ()"
  by (simp add: gpio_sifive_config_def config_direction_def config_interrupt_def
      zephyr_gpio_h_def gpio_zero_def BIT_def)

text \<open>
  Claim C1, amended. A call that fails for the addressing mode (\<^verbatim>\<open>-ENOTSUP\<close>) or for a
  pin out of range (\<^verbatim>\<open>-EINVAL\<close>) changes no register. For a valid pin in per-pin mode:
  polarity inversion or pull-down asked with input direction fails with \<^verbatim>\<open>-EINVAL\<close>
  after the direction has been applied (output-enable bit clear, input-enable bit set,
  invert register untouched); an interrupt asked with output direction fails with
  \<^verbatim>\<open>-EINVAL\<close> after direction and polarity have been applied (input-enable bit clear,
  output-enable bit set, invert bit as the polarity flag says). These are the only
  failures, and a failing call leaves every register other than input-enable,
  output-enable and invert as it was.
\<close>

theorem config_error_effect:
  assumes pins: "SIFIVE_PINMUX_PINS h \<le> 32"
    and res: "gpio_sifive_config h gpio access_op pin flags = (r, gpio')"
  shows "(access_op \<noteq> GPIO_ACCESS_BY_PIN h \<longrightarrow> r = Inl ENOTSUP \<and> gpio' = gpio)
    \<and> (access_op = GPIO_ACCESS_BY_PIN h \<and> pin \<ge> SIFIVE_PINMUX_PINS h \<longrightarrow>
          r = Inl EINVAL \<and> gpio' = gpio)
    \<and> (access_op = GPIO_ACCESS_BY_PIN h \<and> pin < SIFIVE_PINMUX_PINS h \<longrightarrow>
          (flags AND GPIO_DIR_OUT h = 0 \<and>
           (flags AND GPIO_POL_INV h \<noteq> 0 \<or> flags AND GPIO_PUD_MASK h = GPIO_PUD_PULL_DOWN h) \<longrightarrow>
             r = Inl EINVAL \<and> \<not> bit (out_en gpio') (unat pin) \<and> bit (in_en gpio') (unat pin)
             \<and> invert gpio' = invert gpio)
        \<and> (flags AND GPIO_DIR_OUT h \<noteq> 0 \<and> flags AND GPIO_INT h \<noteq> 0 \<longrightarrow>
             r = Inl EINVAL \<and> \<not> bit (in_en gpio') (unat pin) \<and> bit (out_en gpio') (unat pin)
             \<and> (bit (invert gpio') (unat pin) \<longleftrightarrow> flags AND GPIO_POL_INV h \<noteq> 0))
        \<and> ((\<exists>e. r = Inl e) \<longrightarrow>
             r = Inl EINVAL
             \<and> (flags AND GPIO_DIR_OUT h = 0 \<and>
                  (flags AND GPIO_POL_INV h \<noteq> 0 \<or>
                   flags AND GPIO_PUD_MASK h = GPIO_PUD_PULL_DOWN h)
                \<or> flags AND GPIO_DIR_OUT h \<noteq> 0 \<and> flags AND GPIO_INT h \<noteq> 0)
             \<and> in_val gpio' = in_val gpio \<and> out_val gpio' = out_val gpio
             \<and> pue gpio' = pue gpio \<and> ds gpio' = ds gpio
             \<and> rise_ie gpio' = rise_ie gpio \<and> rise_ip gpio' = rise_ip gpio
             \<and> fall_ie gpio' = fall_ie gpio \<and> fall_ip gpio' = fall_ip gpio
             \<and> high_ie gpio' = high_ie gpio \<and> high_ip gpio' = high_ip gpio
             \<and> low_ie gpio' = low_ie gpio \<and> low_ip gpio' = low_ip gpio
             \<and> iof_en gpio' = iof_en gpio \<and> iof_sel gpio' = iof_sel gpio))"
  using res
proof (cases rule: gpio_sifive_config_cases)
  case notsup
  then show ?thesis by simp
next
  case range
  from range(2) have "\<not> pin < SIFIVE_PINMUX_PINS h" by (rule leD)
  with range show ?thesis by simp
next
  case (dir_error e)
  from dir_error(2) pins have p: "unat pin < 32" by (rule pin_fits)
  note err = config_direction_error [OF p dir_error(3)]
  note dir = config_direction_dir [OF p dir_error(3)]
  note keep = config_direction_keeps [OF dir_error(3)]
  from dir_error(1,2,4) err dir keep show ?thesis by simp
next
  case (dir_ok g1)
  from dir_ok(2) pins have p: "unat pin < 32" by (rule pin_fits)
  note dir = config_direction_dir [OF p dir_ok(3)]
  note keep1 = config_direction_keeps [OF dir_ok(3)]
  have inp: "\<not> (flags AND GPIO_DIR_OUT h = 0 \<and>
      (flags AND GPIO_POL_INV h \<noteq> 0 \<or> flags AND GPIO_PUD_MASK h = GPIO_PUD_PULL_DOWN h))"
    using config_direction_rejects [of flags h gpio pin] dir_ok(3) by auto
  have out: "r = Inl EINVAL \<and> \<not> bit (in_en gpio') (unat pin) \<and> bit (out_en gpio') (unat pin)
      \<and> (bit (invert gpio') (unat pin) \<longleftrightarrow> flags AND GPIO_POL_INV h \<noteq> 0)"
    if c: "flags AND GPIO_DIR_OUT h \<noteq> 0" "flags AND GPIO_INT h \<noteq> 0"
    using config_interrupt_rejects [OF c(2,1), of g1 pin] dir_ok(4) dir c(1)
      config_direction_output(3) [OF p c(1) dir_ok(3)]
    by auto
  have err: "r = Inl EINVAL
      \<and> flags AND GPIO_DIR_OUT h \<noteq> 0 \<and> flags AND GPIO_INT h \<noteq> 0
      \<and> in_val gpio' = in_val gpio \<and> out_val gpio' = out_val gpio
      \<and> pue gpio' = pue gpio \<and> ds gpio' = ds gpio
      \<and> rise_ie gpio' = rise_ie gpio \<and> rise_ip gpio' = rise_ip gpio
      \<and> fall_ie gpio' = fall_ie gpio \<and> fall_ip gpio' = fall_ip gpio
      \<and> high_ie gpio' = high_ie gpio \<and> high_ip gpio' = high_ip gpio
      \<and> low_ie gpio' = low_ie gpio \<and> low_ip gpio' = low_ip gpio
      \<and> iof_en gpio' = iof_en gpio \<and> iof_sel gpio' = iof_sel gpio"
    if e: "r = Inl e" for e
  proof -
    from dir_ok(4) e have ci: "config_interrupt h g1 pin flags = (Inl e, gpio')" by simp
    note ie = config_interrupt_error [OF ci]
    from ie have o: "flags AND GPIO_DIR_OUT h \<noteq> 0" by simp
    from config_direction_output(2) [OF p o dir_ok(3)] ie keep1 e show ?thesis by simp
  qed
  from dir_ok(2) have nr: "\<not> SIFIVE_PINMUX_PINS h \<le> pin" by (simp add: not_le)
  show ?thesis
  proof (cases "flags AND GPIO_DIR_OUT h \<noteq> 0 \<and> flags AND GPIO_INT h \<noteq> 0")
    case True
    then have c: "flags AND GPIO_DIR_OUT h \<noteq> 0" "flags AND GPIO_INT h \<noteq> 0" by simp_all
    note o = out [OF c]
    from o have "r = Inl EINVAL" by simp
    note e = err [OF this]
    from dir_ok(1) nr c o e show ?thesis by simp
  next
    case False
    with err have "\<And>e. r \<noteq> Inl e" by blast
    with dir_ok(1) nr inp False show ?thesis by simp
  qed
qed

theorem config_error_effect_witness:
  "SIFIVE_PINMUX_PINS zephyr_gpio_h \<le> 32
   \<and> gpio_sifive_config zephyr_gpio_h gpio_zero 0 0 0x80 = (Inl EINVAL, gpio_zero\<lparr>in_en := 1\<rparr>)
   \<and> (\<not> bit (out_en (gpio_zero\<lparr>in_en := 1\<rparr>)) 0 \<and> bit (in_en (gpio_zero\<lparr>in_en := 1\<rparr>)) 0
      \<and> pue (gpio_zero\<lparr>in_en := 1\<rparr>) = pue gpio_zero)
   \<and> gpio_sifive_config zephyr_gpio_h (gpio_zero\<lparr>in_en := 1\<rparr>) 0 0 0x3
       = (Inl EINVAL, gpio_zero\<lparr>out_en := 1\<rparr>)
   \<and> (\<not> bit (in_en (gpio_zero\<lparr>out_en := 1\<rparr>)) 0 \<and> bit (out_en (gpio_zero\<lparr>out_en := 1\<rparr>)) 0
      \<and> \<not> bit (invert (gpio_zero\<lparr>out_en := 1\<rparr>)) 0)"
proof -
  have pins: "SIFIVE_PINMUX_PINS zephyr_gpio_h \<le> 32"
    by (simp add: zephyr_gpio_h_def)
  have inv: "gpio_sifive_config zephyr_gpio_h gpio_zero 0 0 0x80
      = (Inl EINVAL, gpio_zero\<lparr>in_en := 1\<rparr>)"
    by (simp add: gpio_sifive_config_def config_direction_def config_interrupt_def
        zephyr_gpio_h_def gpio_zero_def BIT_def)
  have int: "gpio_sifive_config zephyr_gpio_h (gpio_zero\<lparr>in_en := 1\<rparr>) 0 0 0x3
      = (Inl EINVAL, gpio_zero\<lparr>out_en := 1\<rparr>)"
    by (simp add: gpio_sifive_config_def config_direction_def config_interrupt_def
        zephyr_gpio_h_def gpio_zero_def BIT_def)
  have a: "\<not> bit (out_en (gpio_zero\<lparr>in_en := 1\<rparr>)) 0 \<and> bit (in_en (gpio_zero\<lparr>in_en := 1\<rparr>)) 0
      \<and> pue (gpio_zero\<lparr>in_en := 1\<rparr>) = pue gpio_zero"
    using config_error_effect [OF pins inv] by (simp add: zephyr_gpio_h_def)
  have b: "\<not> bit (in_en (gpio_zero\<lparr>out_en := 1\<rparr>)) 0 \<and> bit (out_en (gpio_zero\<lparr>out_en := 1\<rparr>)) 0
      \<and> \<not> bit (invert (gpio_zero\<lparr>out_en := 1\<rparr>)) 0"
    using config_error_effect [OF pins int] by (simp add: zephyr_gpio_h_def)
  from pins inv a int b show ?thesis by blast
qed

section \<open>Direction bits are mutually exclusive\<close>

text \<open>
  Claim C3. A call of \<^verbatim>\<open>gpio_sifive_config\<close> that returns 0 was made for a valid pin;
  if the flags ask for output, the pin's input-enable bit is clear and its output-enable
  bit is set afterwards; if they ask for input, the output-enable bit is clear and the
  input-enable bit is set; in either case the two bits are not both set. Since no other
  pin's bits change, a register block in which no pin has both bits set stays so.
\<close>

theorem config_direction_exclusive:
  assumes pins: "SIFIVE_PINMUX_PINS h \<le> 32"
    and ok: "gpio_sifive_config h gpio access_op pin flags = (Inr (), gpio')"
  shows "pin < SIFIVE_PINMUX_PINS h
    \<and> (flags AND GPIO_DIR_OUT h \<noteq> 0 \<longrightarrow>
          \<not> bit (in_en gpio') (unat pin) \<and> bit (out_en gpio') (unat pin))
    \<and> (flags AND GPIO_DIR_OUT h = 0 \<longrightarrow>
          \<not> bit (out_en gpio') (unat pin) \<and> bit (in_en gpio') (unat pin))
    \<and> \<not> (bit (in_en gpio') (unat pin) \<and> bit (out_en gpio') (unat pin))
    \<and> ((\<forall>n. \<not> (bit (in_en gpio) n \<and> bit (out_en gpio) n)) \<longrightarrow>
        (\<forall>n. \<not> (bit (in_en gpio') n \<and> bit (out_en gpio') n)))"
  using ok
proof (cases rule: gpio_sifive_config_cases)
  case (dir_ok g1)
  from dir_ok(2) pins have p: "unat pin < 32" by (rule pin_fits)
  note dir = config_direction_dir [OF p dir_ok(3)]
  note same = config_interrupt_keeps(2,3) [OF dir_ok(4)]
  have here: "\<not> (bit (in_en gpio') (unat pin) \<and> bit (out_en gpio') (unat pin))"
    using dir same by simp
  have inv: "\<not> (bit (in_en gpio') n \<and> bit (out_en gpio') n)"
    if "\<forall>n. \<not> (bit (in_en gpio) n \<and> bit (out_en gpio) n)" for n
  proof (cases "n = unat pin")
    case True
    with here show ?thesis by simp
  next
    case False
    from config_direction_frame(1,2) [OF p dir_ok(3) False] same that
    show ?thesis by simp
  qed
  from dir same dir_ok(2) inv show ?thesis by simp
qed simp_all

theorem config_direction_exclusive_witness:
  "SIFIVE_PINMUX_PINS zephyr_gpio_h \<le> 32
   \<and> gpio_sifive_config zephyr_gpio_h (gpio_zero\<lparr>in_en := 8\<rparr>) 0 3 0x1
       = (Inr (), gpio_zero\<lparr>out_en := 8\<rparr>)
   \<and> (\<forall>n. \<not> (bit (in_en (gpio_zero\<lparr>in_en := 8\<rparr>)) n
              \<and> bit (out_en (gpio_zero\<lparr>in_en := 8\<rparr>)) n))
   \<and> \<not> bit (in_en (gpio_zero\<lparr>out_en := 8\<rparr>)) 3
   \<and> bit (out_en (gpio_zero\<lparr>out_en := 8\<rparr>)) 3
   \<and> gpio_sifive_config zephyr_gpio_h (gpio_zero\<lparr>out_en := 8\<rparr>) 0 3 0x100
       = (Inr (), gpio_zero\<lparr>in_en := 8, pue := 8\<rparr>)
   \<and> \<not> bit (out_en (gpio_zero\<lparr>in_en := 8, pue := 8\<rparr>)) 3
   \<and> bit (in_en (gpio_zero\<lparr>in_en := 8, pue := 8\<rparr>)) 3"
proof -
  have pins: "SIFIVE_PINMUX_PINS zephyr_gpio_h \<le> 32"
    by (simp add: zephyr_gpio_h_def)
  have out: "gpio_sifive_config zephyr_gpio_h (gpio_zero\<lparr>in_en := 8\<rparr>) 0 3 0x1
       = (Inr (), gpio_zero\<lparr>out_en := 8\<rparr>)"
    by (simp add: gpio_sifive_config_def config_direction_def config_interrupt_def
        zephyr_gpio_h_def gpio_zero_def BIT_def)
  have inp: "gpio_sifive_config zephyr_gpio_h (gpio_zero\<lparr>out_en := 8\<rparr>) 0 3 0x100
       = (Inr (), gpio_zero\<lparr>in_en := 8, pue := 8\<rparr>)"
    by (simp add: gpio_sifive_config_def config_direction_def config_interrupt_def
        zephyr_gpio_h_def gpio_zero_def BIT_def)
  from config_direction_exclusive [OF pins out] config_direction_exclusive [OF pins inp]
    pins out inp
  show ?thesis by (simp add: zephyr_gpio_h_def gpio_zero_def)
qed

section \<open>Interrupt trigger classes\<close>

text \<open>
  Claim C4. After a call of \<^verbatim>\<open>gpio_sifive_config\<close> that returns 0 with the interrupt
  flag set: with the edge flag, the pin's high- and low-level enable bits are clear, and
  rise and fall are both set for double edge, rise set and fall clear for active high,
  rise clear and fall set otherwise; without the edge flag, the pin's rise and fall enable
  bits are clear, and high is set and low clear for active high, high clear and low set
  otherwise. So the pin never has an edge class and a level class armed together.
\<close>

theorem config_interrupt_trigger:
  assumes pins: "SIFIVE_PINMUX_PINS h \<le> 32"
    and ok: "gpio_sifive_config h gpio access_op pin flags = (Inr (), gpio')"
    and int: "flags AND GPIO_INT h \<noteq> 0"
  shows "(flags AND GPIO_INT_EDGE h \<noteq> 0 \<longrightarrow>
            \<not> bit (high_ie gpio') (unat pin) \<and> \<not> bit (low_ie gpio') (unat pin)
          \<and> (flags AND GPIO_INT_DOUBLE_EDGE h \<noteq> 0 \<longrightarrow>
                bit (rise_ie gpio') (unat pin) \<and> bit (fall_ie gpio') (unat pin))
          \<and> (flags AND GPIO_INT_DOUBLE_EDGE h = 0 \<and> flags AND GPIO_INT_ACTIVE_HIGH h \<noteq> 0 \<longrightarrow>
                bit (rise_ie gpio') (unat pin) \<and> \<not> bit (fall_ie gpio') (unat pin))
          \<and> (flags AND GPIO_INT_DOUBLE_EDGE h = 0 \<and> flags AND GPIO_INT_ACTIVE_HIGH h = 0 \<longrightarrow>
                \<not> bit (rise_ie gpio') (unat pin) \<and> bit (fall_ie gpio') (unat pin)))
    \<and> (flags AND GPIO_INT_EDGE h = 0 \<longrightarrow>
            \<not> bit (rise_ie gpio') (unat pin) \<and> \<not> bit (fall_ie gpio') (unat pin)
          \<and> (flags AND GPIO_INT_ACTIVE_HIGH h \<noteq> 0 \<longrightarrow>
                bit (high_ie gpio') (unat pin) \<and> \<not> bit (low_ie gpio') (unat pin))
          \<and> (flags AND GPIO_INT_ACTIVE_HIGH h = 0 \<longrightarrow>
                \<not> bit (high_ie gpio') (unat pin) \<and> bit (low_ie gpio') (unat pin)))
    \<and> \<not> ((bit (rise_ie gpio') (unat pin) \<or> bit (fall_ie gpio') (unat pin))
          \<and> (bit (high_ie gpio') (unat pin) \<or> bit (low_ie gpio') (unat pin)))"
  using ok
proof (cases rule: gpio_sifive_config_cases)
  case (dir_ok g1)
  from dir_ok(2) pins have p: "unat pin < 32" by (rule pin_fits)
  from config_interrupt_ie [OF p dir_ok(4) int]
  show ?thesis by auto
qed simp_all

theorem config_interrupt_trigger_witness:
  "SIFIVE_PINMUX_PINS zephyr_gpio_h \<le> 32
   \<and> gpio_sifive_config zephyr_gpio_h (gpio_zero\<lparr>high_ie := 8\<rparr>) 0 3 0x62
       = (Inr (), gpio_zero\<lparr>in_en := 8, rise_ie := 8, fall_ie := 8\<rparr>)
   \<and> (0x62 :: u32) AND GPIO_INT zephyr_gpio_h \<noteq> 0
   \<and> bit (rise_ie (gpio_zero\<lparr>in_en := 8, rise_ie := 8, fall_ie := 8\<rparr>)) 3
   \<and> bit (fall_ie (gpio_zero\<lparr>in_en := 8, rise_ie := 8, fall_ie := 8\<rparr>)) 3
   \<and> \<not> bit (high_ie (gpio_zero\<lparr>in_en := 8, rise_ie := 8, fall_ie := 8\<rparr>)) 3
   \<and> \<not> bit (low_ie (gpio_zero\<lparr>in_en := 8, rise_ie := 8, fall_ie := 8\<rparr>)) 3"
proof -
  have pins: "SIFIVE_PINMUX_PINS zephyr_gpio_h \<le> 32"
    by (simp add: zephyr_gpio_h_def)
  have ok: "gpio_sifive_config zephyr_gpio_h (gpio_zero\<lparr>high_ie := 8\<rparr>) 0 3 0x62
       = (Inr (), gpio_zero\<lparr>in_en := 8, rise_ie := 8, fall_ie := 8\<rparr>)"
    by (simp add: gpio_sifive_config_def config_direction_def config_interrupt_def
        zephyr_gpio_h_def gpio_zero_def BIT_def)
  have int: "(0x62 :: u32) AND GPIO_INT zephyr_gpio_h \<noteq> 0"
    by (simp add: zephyr_gpio_h_def)
  from config_interrupt_trigger [OF pins ok int] pins ok int
  show ?thesis by (simp add: zephyr_gpio_h_def)
qed

section \<open>Other pins are not touched\<close>

text \<open>
  Claim C7. Whatever the pin, the flags and the outcome, a call of
  \<^verbatim>\<open>gpio_sifive_config\<close> leaves every bit of every register at an index other than the
  pin's exactly as it was before the call.
\<close>

theorem config_frame:
  assumes pins: "SIFIVE_PINMUX_PINS h \<le> 32"
    and res: "gpio_sifive_config h gpio access_op pin flags = (r, gpio')"
    and other: "n \<noteq> unat pin"
  shows "bit (in_val gpio') n = bit (in_val gpio) n
    \<and> bit (in_en gpio') n = bit (in_en gpio) n
    \<and> bit (out_en gpio') n = bit (out_en gpio) n
    \<and> bit (out_val gpio') n = bit (out_val gpio) n
    \<and> bit (pue gpio') n = bit (pue gpio) n
    \<and> bit (ds gpio') n = bit (ds gpio) n
    \<and> bit (rise_ie gpio') n = bit (rise_ie gpio) n
    \<and> bit (rise_ip gpio') n = bit (rise_ip gpio) n
    \<and> bit (fall_ie gpio') n = bit (fall_ie gpio) n
    \<and> bit (fall_ip gpio') n = bit (fall_ip gpio) n
    \<and> bit (high_ie gpio') n = bit (high_ie gpio) n
    \<and> bit (high_ip gpio') n = bit (high_ip gpio) n
    \<and> bit (low_ie gpio') n = bit (low_ie gpio) n
    \<and> bit (low_ip gpio') n = bit (low_ip gpio) n
    \<and> bit (iof_en gpio') n = bit (iof_en gpio) n
    \<and> bit (iof_sel gpio') n = bit (iof_sel gpio) n
    \<and> bit (invert gpio') n = bit (invert gpio) n"
  using res
proof (cases rule: gpio_sifive_config_cases)
  case (dir_error e)
  from dir_error(2) pins have p: "unat pin < 32" by (rule pin_fits)
  from config_direction_frame [OF p dir_error(3) other] config_direction_keeps [OF dir_error(3)]
  show ?thesis by simp
next
  case (dir_ok g1)
  from dir_ok(2) pins have p: "unat pin < 32" by (rule pin_fits)
  from config_direction_frame [OF p dir_ok(3) other] config_direction_keeps [OF dir_ok(3)]
    config_interrupt_frame [OF p dir_ok(4) other] config_interrupt_keeps [OF dir_ok(4)]
  show ?thesis by simp
qed simp_all

theorem config_frame_witness:
  "SIFIVE_PINMUX_PINS zephyr_gpio_h \<le> 32
   \<and> gpio_sifive_config zephyr_gpio_h
         (gpio_zero\<lparr>out_en := 0xFF, rise_ie := 0x0A, high_ie := 0x0C\<rparr>) 0 3 0x62
       = (Inr (), gpio_zero\<lparr>in_en := 0x08, out_en := 0xF7, rise_ie := 0x0A, fall_ie := 0x08,
                             high_ie := 0x04\<rparr>)
   \<and> (2::nat) \<noteq> unat (3::u32)
   \<and> bit (out_en (gpio_zero\<lparr>in_en := 0x08, out_en := 0xF7, rise_ie := 0x0A, fall_ie := 0x08,
                             high_ie := 0x04\<rparr>)) 2
   \<and> bit (high_ie (gpio_zero\<lparr>in_en := 0x08, out_en := 0xF7, rise_ie := 0x0A, fall_ie := 0x08,
                             high_ie := 0x04\<rparr>)) 2
   \<and> \<not> bit (in_en (gpio_zero\<lparr>in_en := 0x08, out_en := 0xF7, rise_ie := 0x0A, fall_ie := 0x08,
                             high_ie := 0x04\<rparr>)) 2"
proof -
  have pins: "SIFIVE_PINMUX_PINS zephyr_gpio_h \<le> 32"
    by (simp add: zephyr_gpio_h_def)
  have res: "gpio_sifive_config zephyr_gpio_h
         (gpio_zero\<lparr>out_en := 0xFF, rise_ie := 0x0A, high_ie := 0x0C\<rparr>) 0 3 0x62
       = (Inr (), gpio_zero\<lparr>in_en := 0x08, out_en := 0xF7, rise_ie := 0x0A, fall_ie := 0x08,
                             high_ie := 0x04\<rparr>)"
    by (simp add: gpio_sifive_config_def config_direction_def config_interrupt_def
        zephyr_gpio_h_def gpio_zero_def BIT_def)
  have other: "(2::nat) \<noteq> unat (3::u32)" by simp
  from config_frame [OF pins res other] pins res other
  show ?thesis by (simp add: gpio_zero_def)
qed

section \<open>Writing and reading a pin\<close>

text \<open>
  Claim C5. In per-pin mode \<^verbatim>\<open>gpio_sifive_write\<close> returns \<^verbatim>\<open>-EINVAL\<close> for a pin out of
  range and for a pin whose input-enable bit is set, and changes nothing then (the
  output-value register in particular); otherwise it returns 0, the pin's output-value
  bit is set exactly when the value is not zero, and no other bit of the output-value
  register changes. The driver has one error number, \<^verbatim>\<open>EINVAL\<close>, for both failures.
\<close>

theorem write_contract:
  assumes pins: "SIFIVE_PINMUX_PINS h \<le> 32"
    and res: "gpio_sifive_write h gpio (GPIO_ACCESS_BY_PIN h) pin val = (r, gpio')"
  shows "(pin \<ge> SIFIVE_PINMUX_PINS h \<longrightarrow> r = Inl EINVAL \<and> gpio' = gpio)
    \<and> (pin < SIFIVE_PINMUX_PINS h \<and> bit (in_en gpio) (unat pin) \<longrightarrow>
          r = Inl EINVAL \<and> out_val gpio' = out_val gpio \<and> gpio' = gpio)
    \<and> (pin < SIFIVE_PINMUX_PINS h \<and> \<not> bit (in_en gpio) (unat pin) \<longrightarrow>
          r = Inr ()
          \<and> (bit (out_val gpio') (unat pin) \<longleftrightarrow> val \<noteq> 0)
          \<and> (\<forall>n. n \<noteq> unat pin \<longrightarrow> bit (out_val gpio') n = bit (out_val gpio) n))"
proof (cases "pin < SIFIVE_PINMUX_PINS h")
  case True
  from True pins have p: "unat pin < 32" by (rule pin_fits)
  from True have nr: "\<not> SIFIVE_PINMUX_PINS h \<le> pin" by (simp add: not_le)
  from res nr True show ?thesis
    by (auto simp: gpio_sifive_write_def test_BIT [OF p] bit_set_BIT [OF p] bit_clear_BIT [OF p]
        split: if_splits)
next
  case False
  then have "SIFIVE_PINMUX_PINS h \<le> pin" by (simp add: not_less)
  with res False show ?thesis by (simp add: gpio_sifive_write_def)
qed

theorem write_contract_witness:
  "SIFIVE_PINMUX_PINS zephyr_gpio_h \<le> 32
   \<and> gpio_sifive_write zephyr_gpio_h (gpio_zero\<lparr>in_en := 8\<rparr>) (GPIO_ACCESS_BY_PIN zephyr_gpio_h) 3 1
       = (Inl EINVAL, gpio_zero\<lparr>in_en := 8\<rparr>)
   \<and> gpio_sifive_write zephyr_gpio_h (gpio_zero\<lparr>out_en := 8, out_val := 0x10\<rparr>)
         (GPIO_ACCESS_BY_PIN zephyr_gpio_h) 3 1
       = (Inr (), gpio_zero\<lparr>out_en := 8, out_val := 0x18\<rparr>)
   \<and> (bit (out_val (gpio_zero\<lparr>out_en := 8, out_val := 0x18\<rparr>)) 3
      \<and> bit (out_val (gpio_zero\<lparr>out_en := 8, out_val := 0x18\<rparr>)) 4)
   \<and> gpio_sifive_write zephyr_gpio_h gpio_zero (GPIO_ACCESS_BY_PIN zephyr_gpio_h) 32 1
       = (Inl EINVAL, gpio_zero)"
proof -
  have pins: "SIFIVE_PINMUX_PINS zephyr_gpio_h \<le> 32"
    by (simp add: zephyr_gpio_h_def)
  have inp: "gpio_sifive_write zephyr_gpio_h (gpio_zero\<lparr>in_en := 8\<rparr>)
        (GPIO_ACCESS_BY_PIN zephyr_gpio_h) 3 1 = (Inl EINVAL, gpio_zero\<lparr>in_en := 8\<rparr>)"
    by (simp add: gpio_sifive_write_def zephyr_gpio_h_def gpio_zero_def BIT_def)
  have out: "gpio_sifive_write zephyr_gpio_h (gpio_zero\<lparr>out_en := 8, out_val := 0x10\<rparr>)
        (GPIO_ACCESS_BY_PIN zephyr_gpio_h) 3 1
      = (Inr (), gpio_zero\<lparr>out_en := 8, out_val := 0x18\<rparr>)"
    by (simp add: gpio_sifive_write_def zephyr_gpio_h_def gpio_zero_def BIT_def)
  have range: "gpio_sifive_write zephyr_gpio_h gpio_zero (GPIO_ACCESS_BY_PIN zephyr_gpio_h) 32 1
      = (Inl EINVAL, gpio_zero)"
    by (simp add: gpio_sifive_write_def zephyr_gpio_h_def)
  have a: "bit (out_val (gpio_zero\<lparr>out_en := 8, out_val := 0x18\<rparr>)) 3
      \<and> bit (out_val (gpio_zero\<lparr>out_en := 8, out_val := 0x18\<rparr>)) 4"
    using write_contract [OF pins out] by (simp add: zephyr_gpio_h_def gpio_zero_def)
  from pins inp out a range show ?thesis by blast
qed

text \<open>
  Claim C6. In per-pin mode \<^verbatim>\<open>gpio_sifive_read\<close> returns \<^verbatim>\<open>-EINVAL\<close> for a pin out of
  range; otherwise it returns 0 and stores the pin's output-value bit (as 0 or 1) when
  the pin's output-enable bit is set, and the pin's input-value bit when it is not.
  The register block is the same after the call in every case.
\<close>

theorem read_contract:
  assumes pins: "SIFIVE_PINMUX_PINS h \<le> 32"
    and res: "gpio_sifive_read h gpio (GPIO_ACCESS_BY_PIN h) pin = (r, gpio')"
  shows "gpio' = gpio
    \<and> (pin \<ge> SIFIVE_PINMUX_PINS h \<longrightarrow> r = Inl EINVAL)
    \<and> (pin < SIFIVE_PINMUX_PINS h \<and> bit (out_en gpio) (unat pin) \<longrightarrow>
          r = Inr (of_bool (bit (out_val gpio) (unat pin))))
    \<and> (pin < SIFIVE_PINMUX_PINS h \<and> \<not> bit (out_en gpio) (unat pin) \<longrightarrow>
          r = Inr (of_bool (bit (in_val gpio) (unat pin))))"
proof (cases "pin < SIFIVE_PINMUX_PINS h")
  case True
  from True pins have p: "unat pin < 32" by (rule pin_fits)
  from True have nr: "\<not> SIFIVE_PINMUX_PINS h \<le> pin" by (simp add: not_le)
  from res nr True show ?thesis
    by (auto simp: gpio_sifive_read_def test_BIT [OF p] split: if_splits)
next
  case False
  then have "SIFIVE_PINMUX_PINS h \<le> pin" by (simp add: not_less)
  with res False show ?thesis by (simp add: gpio_sifive_read_def)
qed

theorem read_contract_witness:
  "SIFIVE_PINMUX_PINS zephyr_gpio_h \<le> 32
   \<and> gpio_sifive_read zephyr_gpio_h (gpio_zero\<lparr>out_en := 8, out_val := 8\<rparr>)
         (GPIO_ACCESS_BY_PIN zephyr_gpio_h) 3
       = (Inr 1, gpio_zero\<lparr>out_en := 8, out_val := 8\<rparr>)
   \<and> (1 :: u32) = of_bool (bit (out_val (gpio_zero\<lparr>out_en := 8, out_val := 8\<rparr>)) 3)
   \<and> gpio_sifive_read zephyr_gpio_h (gpio_zero\<lparr>in_en := 8, out_val := 8\<rparr>)
         (GPIO_ACCESS_BY_PIN zephyr_gpio_h) 3
       = (Inr 0, gpio_zero\<lparr>in_en := 8, out_val := 8\<rparr>)
   \<and> (0 :: u32) = of_bool (bit (in_val (gpio_zero\<lparr>in_en := 8, out_val := 8\<rparr>)) 3)"
proof -
  have pins: "SIFIVE_PINMUX_PINS zephyr_gpio_h \<le> 32"
    by (simp add: zephyr_gpio_h_def)
  have out: "gpio_sifive_read zephyr_gpio_h (gpio_zero\<lparr>out_en := 8, out_val := 8\<rparr>)
        (GPIO_ACCESS_BY_PIN zephyr_gpio_h) 3
      = (Inr 1, gpio_zero\<lparr>out_en := 8, out_val := 8\<rparr>)"
    by (simp add: gpio_sifive_read_def zephyr_gpio_h_def gpio_zero_def BIT_def)
  have inp: "gpio_sifive_read zephyr_gpio_h (gpio_zero\<lparr>in_en := 8, out_val := 8\<rparr>)
        (GPIO_ACCESS_BY_PIN zephyr_gpio_h) 3
      = (Inr 0, gpio_zero\<lparr>in_en := 8, out_val := 8\<rparr>)"
    by (simp add: gpio_sifive_read_def zephyr_gpio_h_def gpio_zero_def BIT_def)
  have a: "(1 :: u32) = of_bool (bit (out_val (gpio_zero\<lparr>out_en := 8, out_val := 8\<rparr>)) 3)"
    using read_contract [OF pins out] by (simp add: zephyr_gpio_h_def gpio_zero_def)
  have b: "(0 :: u32) = of_bool (bit (in_val (gpio_zero\<lparr>in_en := 8, out_val := 8\<rparr>)) 3)"
    using read_contract [OF pins inp] by (simp add: zephyr_gpio_h_def gpio_zero_def)
  from pins out a inp b show ?thesis by blast
qed

text \<open>
  Claim C9. For a valid pin in per-pin mode \<^verbatim>\<open>gpio_sifive_write\<close> fails exactly when
  the pin's input-enable bit is set. So on a pin with input-enable and output-enable both
  clear the write succeeds and sets or clears the output-value bit, and this is the case
  for every pin right after \<^verbatim>\<open>gpio_sifive_init\<close>.
\<close>

theorem write_fails_iff_input_enabled:
  assumes pins: "SIFIVE_PINMUX_PINS h \<le> 32"
    and valid: "pin < SIFIVE_PINMUX_PINS h"
  shows "(isl (fst (gpio_sifive_write h gpio (GPIO_ACCESS_BY_PIN h) pin val))
            \<longleftrightarrow> bit (in_en gpio) (unat pin))
    \<and> (\<not> bit (in_en gpio) (unat pin) \<and> \<not> bit (out_en gpio) (unat pin) \<longrightarrow>
          fst (gpio_sifive_write h gpio (GPIO_ACCESS_BY_PIN h) pin val) = Inr ()
          \<and> (bit (out_val (snd (gpio_sifive_write h gpio (GPIO_ACCESS_BY_PIN h) pin val)))
                 (unat pin) \<longleftrightarrow> val \<noteq> 0))
    \<and> fst (gpio_sifive_write h (snd (gpio_sifive_init gpio)) (GPIO_ACCESS_BY_PIN h) pin val)
          = Inr ()
    \<and> (bit (out_val (snd (gpio_sifive_write h (snd (gpio_sifive_init gpio))
                          (GPIO_ACCESS_BY_PIN h) pin val))) (unat pin) \<longleftrightarrow> val \<noteq> 0)"
proof -
  from valid pins have p: "unat pin < 32" by (rule pin_fits)
  from valid have nr: "\<not> SIFIVE_PINMUX_PINS h \<le> pin" by (simp add: not_le)
  have z: "in_en (snd (gpio_sifive_init gpio)) = 0"
    by (simp add: gpio_sifive_init_def)
  from nr z show ?thesis
    by (simp add: gpio_sifive_write_def test_BIT [OF p] bit_set_BIT [OF p] bit_clear_BIT [OF p])
qed

theorem write_fails_iff_input_enabled_witness:
  "SIFIVE_PINMUX_PINS zephyr_gpio_h \<le> 32
   \<and> (3 :: u32) < SIFIVE_PINMUX_PINS zephyr_gpio_h
   \<and> fst (gpio_sifive_write zephyr_gpio_h (snd (gpio_sifive_init (gpio_zero\<lparr>in_en := 8\<rparr>)))
          (GPIO_ACCESS_BY_PIN zephyr_gpio_h) 3 1) = Inr ()
   \<and> bit (out_val (snd (gpio_sifive_write zephyr_gpio_h
          (snd (gpio_sifive_init (gpio_zero\<lparr>in_en := 8\<rparr>)))
          (GPIO_ACCESS_BY_PIN zephyr_gpio_h) 3 1))) (unat (3 :: u32))
   \<and> isl (fst (gpio_sifive_write zephyr_gpio_h (gpio_zero\<lparr>in_en := 8\<rparr>)
          (GPIO_ACCESS_BY_PIN zephyr_gpio_h) 3 1))"
proof -
  have pins: "SIFIVE_PINMUX_PINS zephyr_gpio_h \<le> 32"
    by (simp add: zephyr_gpio_h_def)
  have valid: "(3 :: u32) < SIFIVE_PINMUX_PINS zephyr_gpio_h"
    by (simp add: zephyr_gpio_h_def)
  have set: "bit (in_en (gpio_zero\<lparr>in_en := 8\<rparr>)) (unat (3 :: u32))"
    by simp
  from write_fails_iff_input_enabled [OF pins valid, of "gpio_zero\<lparr>in_en := 8\<rparr>" 1] set pins valid
  show ?thesis by simp
qed

section \<open>Initialisation\<close>

text \<open>
  Claim C8. \<^verbatim>\<open>gpio_sifive_init\<close> returns 0 and leaves the eight configuration registers
  (input-enable, output-enable, pull-up-enable, the rise, fall, high and low
  interrupt-enables, invert) zero: no pin has a direction, a pull-up, an inversion or an
  interrupt class enabled.
\<close>

theorem init_zeroes_configuration:
  "fst (gpio_sifive_init gpio) = Inr ()
   \<and> in_en (snd (gpio_sifive_init gpio)) = 0
   \<and> out_en (snd (gpio_sifive_init gpio)) = 0
   \<and> pue (snd (gpio_sifive_init gpio)) = 0
   \<and> rise_ie (snd (gpio_sifive_init gpio)) = 0
   \<and> fall_ie (snd (gpio_sifive_init gpio)) = 0
   \<and> high_ie (snd (gpio_sifive_init gpio)) = 0
   \<and> low_ie (snd (gpio_sifive_init gpio)) = 0
   \<and> invert (snd (gpio_sifive_init gpio)) = 0
   \<and> (\<forall>n. \<not> bit (in_en (snd (gpio_sifive_init gpio))) n
          \<and> \<not> bit (out_en (snd (gpio_sifive_init gpio))) n
          \<and> \<not> bit (pue (snd (gpio_sifive_init gpio))) n
          \<and> \<not> bit (invert (snd (gpio_sifive_init gpio))) n
          \<and> \<not> bit (rise_ie (snd (gpio_sifive_init gpio))) n
          \<and> \<not> bit (fall_ie (snd (gpio_sifive_init gpio))) n
          \<and> \<not> bit (high_ie (snd (gpio_sifive_init gpio))) n
          \<and> \<not> bit (low_ie (snd (gpio_sifive_init gpio))) n)"
  by (simp add: gpio_sifive_init_def)

section \<open>Interrupt dispatch\<close>

lemma irq_ack_first:
  assumes "unat pin < 32"
  shows "irq_ack gpio (BIT pin) =
     (if bit (rise_ip gpio) (unat pin) then Some (RISE_IP, BIT pin)
      else if bit (fall_ip gpio) (unat pin) then Some (FALL_IP, BIT pin)
      else if bit (high_ip gpio) (unat pin) then Some (HIGH_IP, BIT pin)
      else if bit (low_ip gpio) (unat pin) then Some (LOW_IP, BIT pin)
      else None)"
  by (simp add: irq_ack_def test_BIT [OF assms])

lemma irq_handler_unfold:
  assumes "irq - (gpio_irq_base cfg - RISCV_MAX_GENERIC_IRQ h) = pin"
  shows "gpio_sifive_irq_handler h cfg cbs gpio irq =
     \<lparr> fired = gpio_fire_callbacks cbs (BIT pin), ack = irq_ack gpio (BIT pin),
       regs = (case irq_ack gpio (BIT pin) of None \<Rightarrow> gpio | Some s \<Rightarrow> store_ip gpio s) \<rparr>"
  using assms by (simp add: gpio_sifive_irq_handler_def BIT_def Let_def)

lemma fire_callbacks_matching:
  assumes "unat pin < 32"
  shows "gpio_fire_callbacks cbs (BIT pin) =
     map (\<lambda>cb. (cb_handler cb, BIT pin)) (filter (\<lambda>cb. bit (cb_pin_mask cb) (unat pin)) cbs)"
  by (simp add: gpio_fire_callbacks_def test_BIT [OF assms])

text \<open>
  Claim C2. For the interrupt line of a valid pin, one run of
  \<^verbatim>\<open>gpio_sifive_irq_handler\<close> makes at most one store to a pending register: the pin's
  single-bit mask, to the first of rise, fall, high, low whose bit for the pin is set.
  With write-1-to-clear registers that store clears the pin's bit in that register, keeps
  the register's other bits, and leaves the other three pending registers as they were.
  In particular, when the rise-pending bit is set, that bit alone is cleared and the
  fall-, high- and low-pending registers are unchanged.
\<close>

theorem irq_handler_acknowledges_first_pending:
  assumes pins: "SIFIVE_PINMUX_PINS h \<le> 32"
    and line: "irq - (gpio_irq_base cfg - RISCV_MAX_GENERIC_IRQ h) = pin"
    and valid: "pin < SIFIVE_PINMUX_PINS h"
  shows "ack (gpio_sifive_irq_handler h cfg cbs gpio irq) =
          (if bit (rise_ip gpio) (unat pin) then Some (RISE_IP, BIT pin)
           else if bit (fall_ip gpio) (unat pin) then Some (FALL_IP, BIT pin)
           else if bit (high_ip gpio) (unat pin) then Some (HIGH_IP, BIT pin)
           else if bit (low_ip gpio) (unat pin) then Some (LOW_IP, BIT pin)
           else None)
    \<and> (\<forall>n. bit (BIT pin) n \<longleftrightarrow> n = unat pin)
    \<and> (bit (rise_ip gpio) (unat pin) \<longrightarrow>
          \<not> bit (rise_ip (regs (gpio_sifive_irq_handler h cfg cbs gpio irq))) (unat pin)
          \<and> (\<forall>n. n \<noteq> unat pin \<longrightarrow>
                bit (rise_ip (regs (gpio_sifive_irq_handler h cfg cbs gpio irq))) n
                  = bit (rise_ip gpio) n)
          \<and> fall_ip (regs (gpio_sifive_irq_handler h cfg cbs gpio irq)) = fall_ip gpio
          \<and> high_ip (regs (gpio_sifive_irq_handler h cfg cbs gpio irq)) = high_ip gpio
          \<and> low_ip (regs (gpio_sifive_irq_handler h cfg cbs gpio irq)) = low_ip gpio)
    \<and> (\<not> bit (rise_ip gpio) (unat pin) \<and> bit (fall_ip gpio) (unat pin) \<longrightarrow>
          \<not> bit (fall_ip (regs (gpio_sifive_irq_handler h cfg cbs gpio irq))) (unat pin)
          \<and> (\<forall>n. n \<noteq> unat pin \<longrightarrow>
                bit (fall_ip (regs (gpio_sifive_irq_handler h cfg cbs gpio irq))) n
                  = bit (fall_ip gpio) n)
          \<and> rise_ip (regs (gpio_sifive_irq_handler h cfg cbs gpio irq)) = rise_ip gpio
          \<and> high_ip (regs (gpio_sifive_irq_handler h cfg cbs gpio irq)) = high_ip gpio
          \<and> low_ip (regs (gpio_sifive_irq_handler h cfg cbs gpio irq)) = low_ip gpio)
    \<and> (\<not> bit (rise_ip gpio) (unat pin) \<and> \<not> bit (fall_ip gpio) (unat pin)
        \<and> bit (high_ip gpio) (unat pin) \<longrightarrow>
          \<not> bit (high_ip (regs (gpio_sifive_irq_handler h cfg cbs gpio irq))) (unat pin)
          \<and> (\<forall>n. n \<noteq> unat pin \<longrightarrow>
                bit (high_ip (regs (gpio_sifive_irq_handler h cfg cbs gpio irq))) n
                  = bit (high_ip gpio) n)
          \<and> rise_ip (regs (gpio_sifive_irq_handler h cfg cbs gpio irq)) = rise_ip gpio
          \<and> fall_ip (regs (gpio_sifive_irq_handler h cfg cbs gpio irq)) = fall_ip gpio
          \<and> low_ip (regs (gpio_sifive_irq_handler h cfg cbs gpio irq)) = low_ip gpio)
    \<and> (\<not> bit (rise_ip gpio) (unat pin) \<and> \<not> bit (fall_ip gpio) (unat pin)
        \<and> \<not> bit (high_ip gpio) (unat pin) \<and> bit (low_ip gpio) (unat pin) \<longrightarrow>
          \<not> bit (low_ip (regs (gpio_sifive_irq_handler h cfg cbs gpio irq))) (unat pin)
          \<and> (\<forall>n. n \<noteq> unat pin \<longrightarrow>
                bit (low_ip (regs (gpio_sifive_irq_handler h cfg cbs gpio irq))) n
                  = bit (low_ip gpio) n)
          \<and> rise_ip (regs (gpio_sifive_irq_handler h cfg cbs gpio irq)) = rise_ip gpio
          \<and> fall_ip (regs (gpio_sifive_irq_handler h cfg cbs gpio irq)) = fall_ip gpio
          \<and> high_ip (regs (gpio_sifive_irq_handler h cfg cbs gpio irq)) = high_ip gpio)"
proof -
  from valid pins have p: "unat pin < 32" by (rule pin_fits)
  show ?thesis
    by (simp add: irq_handler_unfold [OF line] irq_ack_first [OF p] bit_clear_BIT [OF p]
        bit_BIT [OF p])
qed

theorem irq_handler_acknowledges_first_pending_witness:
  "SIFIVE_PINMUX_PINS zephyr_gpio_h \<le> 32
   \<and> (11 :: u32) - (gpio_irq_base \<lparr>gpio_base_addr = 0x10012000, gpio_irq_base = 19\<rparr>
         - RISCV_MAX_GENERIC_IRQ zephyr_gpio_h) = 3
   \<and> (3 :: u32) < SIFIVE_PINMUX_PINS zephyr_gpio_h
   \<and> bit (rise_ip (gpio_zero\<lparr>rise_ip := 0x0C, fall_ip := 0x08\<rparr>)) (unat (3 :: u32))
   \<and> ack (gpio_sifive_irq_handler zephyr_gpio_h
          \<lparr>gpio_base_addr = 0x10012000, gpio_irq_base = 19\<rparr> []
          (gpio_zero\<lparr>rise_ip := 0x0C, fall_ip := 0x08\<rparr>) 11) = Some (RISE_IP, 8)
   \<and> regs (gpio_sifive_irq_handler zephyr_gpio_h
          \<lparr>gpio_base_addr = 0x10012000, gpio_irq_base = 19\<rparr> []
          (gpio_zero\<lparr>rise_ip := 0x0C, fall_ip := 0x08\<rparr>) 11)
       = gpio_zero\<lparr>rise_ip := 0x04, fall_ip := 0x08\<rparr>"
proof -
  have pins: "SIFIVE_PINMUX_PINS zephyr_gpio_h \<le> 32"
    by (simp add: zephyr_gpio_h_def)
  have line: "(11 :: u32) - (gpio_irq_base \<lparr>gpio_base_addr = 0x10012000, gpio_irq_base = 19\<rparr>
         - RISCV_MAX_GENERIC_IRQ zephyr_gpio_h) = 3"
    by (simp add: zephyr_gpio_h_def)
  have valid: "(3 :: u32) < SIFIVE_PINMUX_PINS zephyr_gpio_h"
    by (simp add: zephyr_gpio_h_def)
  have rise: "bit (rise_ip (gpio_zero\<lparr>rise_ip := 0x0C, fall_ip := 0x08\<rparr>)) (unat (3 :: u32))"
    by simp
  have a: "ack (gpio_sifive_irq_handler zephyr_gpio_h
          \<lparr>gpio_base_addr = 0x10012000, gpio_irq_base = 19\<rparr> []
          (gpio_zero\<lparr>rise_ip := 0x0C, fall_ip := 0x08\<rparr>) 11) = Some (RISE_IP, 8)"
    using irq_handler_acknowledges_first_pending [OF pins line valid,
        of "[]" "gpio_zero\<lparr>rise_ip := 0x0C, fall_ip := 0x08\<rparr>"] rise
    by (simp add: BIT_def)
  have r: "regs (gpio_sifive_irq_handler zephyr_gpio_h
          \<lparr>gpio_base_addr = 0x10012000, gpio_irq_base = 19\<rparr> []
          (gpio_zero\<lparr>rise_ip := 0x0C, fall_ip := 0x08\<rparr>) 11)
       = gpio_zero\<lparr>rise_ip := 0x04, fall_ip := 0x08\<rparr>"
    by (simp add: gpio_sifive_irq_handler_def irq_ack_def gpio_fire_callbacks_def
        zephyr_gpio_h_def gpio_zero_def)
  from pins line valid rise a r show ?thesis by blast
qed

text \<open>
  Claim C10. When none of the four pending registers has the pin's bit set, the handler
  makes no store and the register block is unchanged, while the callbacks whose mask
  contains the pin have been invoked with the pin's mask all the same.
\<close>

theorem irq_handler_nothing_pending:
  assumes pins: "SIFIVE_PINMUX_PINS h \<le> 32"
    and line: "irq - (gpio_irq_base cfg - RISCV_MAX_GENERIC_IRQ h) = pin"
    and valid: "pin < SIFIVE_PINMUX_PINS h"
    and none: "\<not> bit (rise_ip gpio) (unat pin)" "\<not> bit (fall_ip gpio) (unat pin)"
      "\<not> bit (high_ip gpio) (unat pin)" "\<not> bit (low_ip gpio) (unat pin)"
  shows "ack (gpio_sifive_irq_handler h cfg cbs gpio irq) = None
    \<and> regs (gpio_sifive_irq_handler h cfg cbs gpio irq) = gpio
    \<and> fired (gpio_sifive_irq_handler h cfg cbs gpio irq) =
        map (\<lambda>cb. (cb_handler cb, BIT pin))
          (filter (\<lambda>cb. bit (cb_pin_mask cb) (unat pin)) cbs)"
proof -
  from valid pins have p: "unat pin < 32" by (rule pin_fits)
  from none show ?thesis
    by (simp add: irq_handler_unfold [OF line] irq_ack_first [OF p]
        fire_callbacks_matching [OF p])
qed

theorem irq_handler_nothing_pending_witness:
  "SIFIVE_PINMUX_PINS zephyr_gpio_h \<le> 32
   \<and> (11 :: u32) - (gpio_irq_base \<lparr>gpio_base_addr = 0x10012000, gpio_irq_base = 19\<rparr>
         - RISCV_MAX_GENERIC_IRQ zephyr_gpio_h) = 3
   \<and> (3 :: u32) < SIFIVE_PINMUX_PINS zephyr_gpio_h
   \<and> \<not> bit (rise_ip (gpio_zero\<lparr>rise_ip := 0x04\<rparr>)) (unat (3 :: u32))
   \<and> \<not> bit (fall_ip (gpio_zero\<lparr>rise_ip := 0x04\<rparr>)) (unat (3 :: u32))
   \<and> \<not> bit (high_ip (gpio_zero\<lparr>rise_ip := 0x04\<rparr>)) (unat (3 :: u32))
   \<and> \<not> bit (low_ip (gpio_zero\<lparr>rise_ip := 0x04\<rparr>)) (unat (3 :: u32))
   \<and> gpio_sifive_irq_handler zephyr_gpio_h
          \<lparr>gpio_base_addr = 0x10012000, gpio_irq_base = 19\<rparr>
          [\<lparr>cb_pin_mask = 0x08, cb_handler = 1\<rparr>, \<lparr>cb_pin_mask = 0x04, cb_handler = 2\<rparr>,
           \<lparr>cb_pin_mask = 0x0C, cb_handler = 3\<rparr>]
          (gpio_zero\<lparr>rise_ip := 0x04\<rparr>) 11
       = \<lparr>fired = [(1, 8), (3, 8)], ack = None, regs = gpio_zero\<lparr>rise_ip := 0x04\<rparr>\<rparr>"
proof -
  have pins: "SIFIVE_PINMUX_PINS zephyr_gpio_h \<le> 32"
    by (simp add: zephyr_gpio_h_def)
  have line: "(11 :: u32) - (gpio_irq_base \<lparr>gpio_base_addr = 0x10012000, gpio_irq_base = 19\<rparr>
         - RISCV_MAX_GENERIC_IRQ zephyr_gpio_h) = 3"
    by (simp add: zephyr_gpio_h_def)
  have valid: "(3 :: u32) < SIFIVE_PINMUX_PINS zephyr_gpio_h"
    by (simp add: zephyr_gpio_h_def)
  have none: "\<not> bit (rise_ip (gpio_zero\<lparr>rise_ip := 0x04\<rparr>)) (unat (3 :: u32))"
    "\<not> bit (fall_ip (gpio_zero\<lparr>rise_ip := 0x04\<rparr>)) (unat (3 :: u32))"
    "\<not> bit (high_ip (gpio_zero\<lparr>rise_ip := 0x04\<rparr>)) (unat (3 :: u32))"
    "\<not> bit (low_ip (gpio_zero\<lparr>rise_ip := 0x04\<rparr>)) (unat (3 :: u32))"
    by (simp_all add: gpio_zero_def)
  have run: "gpio_sifive_irq_handler zephyr_gpio_h
          \<lparr>gpio_base_addr = 0x10012000, gpio_irq_base = 19\<rparr>
          [\<lparr>cb_pin_mask = 0x08, cb_handler = 1\<rparr>, \<lparr>cb_pin_mask = 0x04, cb_handler = 2\<rparr>,
           \<lparr>cb_pin_mask = 0x0C, cb_handler = 3\<rparr>]
          (gpio_zero\<lparr>rise_ip := 0x04\<rparr>) 11
       = \<lparr>fired = [(1, 8), (3, 8)], ack = None, regs = gpio_zero\<lparr>rise_ip := 0x04\<rparr>\<rparr>"
    using irq_handler_nothing_pending [OF pins line valid none,
        of "[\<lparr>cb_pin_mask = 0x08, cb_handler = 1\<rparr>, \<lparr>cb_pin_mask = 0x04, cb_handler = 2\<rparr>,
           \<lparr>cb_pin_mask = 0x0C, cb_handler = 3\<rparr>]"]
    by (simp add: BIT_def irq_outcome.equality)
  from pins line valid none run show ?thesis by blast
qed

end
